theory Spec2Isabelle
  imports Main "HOL-Library.Word"
begin

unbundle bit_operations_syntax

section \<open>Strings and bytes\<close>

text \<open>
  A Python \<open>str\<close> is modelled as a \<^typ>\<open>string\<close>: a list of 8-bit characters, that is,
  of code points below 256. This is what an HTTP header value carries, and \<open>len\<close> counts
  one per character. \<open>str.encode()\<close> is UTF-8: a code point below 128 is one byte, one
  from 128 to 255 is two bytes.
\<close>

type_synonym byte = "8 word"
type_synonym w32 = "32 word"

definition encode_char :: "char \<Rightarrow> byte list" where
  "encode_char c =
     (let n = (of_char c :: nat) in
      if n < 128 then [of_nat n]
      else [of_nat (192 + n div 64), of_nat (128 + n mod 64)])"

definition encode :: "string \<Rightarrow> byte list" where
  "encode s = concat (map encode_char s)"

text \<open>\<open>s.startswith(p)\<close>.\<close>

fun startswith :: "string \<Rightarrow> string \<Rightarrow> bool" where
  "startswith s [] = True"
| "startswith [] (p # ps) = False"
| "startswith (c # cs) (p # ps) = (c = p \<and> startswith cs ps)"

text \<open>
  \<open>s.replace(old, new)\<close>: every non-overlapping occurrence of \<open>old\<close>, found from the
  left, is replaced. With an empty \<open>old\<close>, Python puts \<open>new\<close> before every character and
  at the end.
\<close>

function replace :: "string \<Rightarrow> string \<Rightarrow> string \<Rightarrow> string" where
  "replace s old new =
     (if old = [] then new @ concat (map (\<lambda>c. c # new) s)
      else if s = [] then []
      else if startswith s old then new @ replace (drop (length old) s) old new
      else hd s # replace (tl s) old new)"
  by pat_completeness auto
termination
  by (relation "measure (\<lambda>(s, old, new). length s)") auto

declare replace.simps [simp del]

section \<open>SHA-256 and HMAC (\<open>hashlib.sha256\<close>, \<open>hmac.new\<close>)\<close>

text \<open>
  The two library functions that \<open>generate_api_key\<close> calls, written out from FIPS 180-4
  and RFC 2104 so that the issued token is a computed value.
\<close>

definition rotr :: "nat \<Rightarrow> w32 \<Rightarrow> w32" where
  "rotr n x = (drop_bit n x) OR (push_bit (32 - n) x)"

definition Ch :: "w32 \<Rightarrow> w32 \<Rightarrow> w32 \<Rightarrow> w32" where
  "Ch x y z = (x AND y) XOR (NOT x AND z)"

definition Maj :: "w32 \<Rightarrow> w32 \<Rightarrow> w32 \<Rightarrow> w32" where
  "Maj x y z = (x AND y) XOR (x AND z) XOR (y AND z)"

definition Sigma0 :: "w32 \<Rightarrow> w32" where
  "Sigma0 x = rotr 2 x XOR rotr 13 x XOR rotr 22 x"

definition Sigma1 :: "w32 \<Rightarrow> w32" where
  "Sigma1 x = rotr 6 x XOR rotr 11 x XOR rotr 25 x"

definition sigma0 :: "w32 \<Rightarrow> w32" where
  "sigma0 x = rotr 7 x XOR rotr 18 x XOR drop_bit 3 x"

definition sigma1 :: "w32 \<Rightarrow> w32" where
  "sigma1 x = rotr 17 x XOR rotr 19 x XOR drop_bit 10 x"

text \<open>
  The constants are given by FIPS 180-4 as the first 32 bits of the fractional parts of
  the cube roots of the first 64 primes (round constants) and of the square roots of the
  first 8 primes (initial hash value). \<open>iroot k bits n\<close> is the integer \<open>k\<close>-th root of
  \<open>n\<close>, built bit by bit from bit \<open>bits - 1\<close> down; 36 bits are enough for the roots
  taken here, and \<open>of_int\<close> keeps the low 32 bits.
\<close>

definition iroot :: "nat \<Rightarrow> nat \<Rightarrow> int \<Rightarrow> int" where
  "iroot k bits n =
     fold (\<lambda>i r. if (r + 2 ^ i) ^ k \<le> n then r + 2 ^ i else r) (rev [0..<bits]) 0"

definition is_prime :: "nat \<Rightarrow> bool" where
  "is_prime n = (2 \<le> n \<and> list_all (\<lambda>d. n mod d \<noteq> 0) [2..<n])"

definition first_primes :: "nat list" where
  "first_primes = filter is_prime [2..<312]"

definition K256 :: "w32 list" where
  "K256 = map (\<lambda>p. of_int (iroot 3 36 (int p * 2 ^ 96))) first_primes"

text \<open>The hash value: eight 32-bit words.\<close>

type_synonym hash = "w32 \<times> w32 \<times> w32 \<times> w32 \<times> w32 \<times> w32 \<times> w32 \<times> w32"

definition sqrt_frac :: "nat \<Rightarrow> w32" where
  "sqrt_frac p = of_int (iroot 2 36 (int p * 2 ^ 64))"

definition H0 :: hash where
  "H0 = (sqrt_frac 2, sqrt_frac 3, sqrt_frac 5, sqrt_frac 7,
         sqrt_frac 11, sqrt_frac 13, sqrt_frac 17, sqrt_frac 19)"

text \<open>Padding: a 1 bit, zeros up to 56 modulo 64 bytes, the length in bits on 64 bits.\<close>

definition be64 :: "nat \<Rightarrow> byte list" where
  "be64 n =
     (let x = (of_nat n :: 64 word)
      in [ucast (drop_bit 56 x), ucast (drop_bit 48 x), ucast (drop_bit 40 x),
          ucast (drop_bit 32 x), ucast (drop_bit 24 x), ucast (drop_bit 16 x),
          ucast (drop_bit 8 x), ucast x])"

definition pad :: "byte list \<Rightarrow> byte list" where
  "pad m = m @ [0x80] @ replicate ((119 - length m mod 64) mod 64) 0 @ be64 (8 * length m)"

fun blocks :: "byte list \<Rightarrow> byte list list" where
  "blocks bs = (if bs = [] then [] else take 64 bs # blocks (drop 64 bs))"

declare blocks.simps [simp del]

fun be_words :: "byte list \<Rightarrow> w32 list" where
  "be_words (a # b # c # d # bs) =
     (push_bit 24 (ucast a) OR push_bit 16 (ucast b) OR push_bit 8 (ucast c) OR ucast d)
       # be_words bs"
| "be_words bs = []"

text \<open>The message schedule: sixteen words of the block, extended to sixty-four.\<close>

definition schedule_step :: "w32 list \<Rightarrow> w32 list" where
  "schedule_step w =
     (let n = length w in
      w @ [sigma1 (w ! (n - 2)) + w ! (n - 7) + sigma0 (w ! (n - 15)) + w ! (n - 16)])"

definition schedule :: "byte list \<Rightarrow> w32 list" where
  "schedule block = (schedule_step ^^ 48) (be_words block)"

definition round :: "hash \<Rightarrow> w32 \<times> w32 \<Rightarrow> hash" where
  "round s kw =
     (case s of (a, b, c, d, e, f, g, h) \<Rightarrow>
        let t1 = h + Sigma1 e + Ch e f g + fst kw + snd kw;
            t2 = Sigma0 a + Maj a b c
        in (t1 + t2, a, b, c, d + t1, e, f, g))"

definition hash_add :: "hash \<Rightarrow> hash \<Rightarrow> hash" where
  "hash_add s t =
     (case s of (a, b, c, d, e, f, g, h) \<Rightarrow>
      case t of (a', b', c', d', e', f', g', h') \<Rightarrow>
        (a + a', b + b', c + c', d + d', e + e', f + f', g + g', h + h'))"

definition compress :: "hash \<Rightarrow> byte list \<Rightarrow> hash" where
  "compress s block = hash_add s (foldl round s (zip K256 (schedule block)))"

definition word_bytes :: "w32 \<Rightarrow> byte list" where
  "word_bytes x = [ucast (drop_bit 24 x), ucast (drop_bit 16 x), ucast (drop_bit 8 x), ucast x]"

definition hash_bytes :: "hash \<Rightarrow> byte list" where
  "hash_bytes s =
     (case s of (a, b, c, d, e, f, g, h) \<Rightarrow>
        word_bytes a @ word_bytes b @ word_bytes c @ word_bytes d @
        word_bytes e @ word_bytes f @ word_bytes g @ word_bytes h)"

definition sha256 :: "byte list \<Rightarrow> byte list" where
  "sha256 m = hash_bytes (foldl compress H0 (blocks (pad m)))"

text \<open>
  \<open>hmac.new(key, msg, hashlib.sha256)\<close>: a key longer than the block of 64 bytes is hashed
  first, then padded with zeros to 64 bytes.
\<close>

definition hmac_key :: "byte list \<Rightarrow> byte list" where
  "hmac_key key =
     (let k = (if length key > 64 then sha256 key else key)
      in k @ replicate (64 - length k) 0)"

definition hmac_sha256 :: "byte list \<Rightarrow> byte list \<Rightarrow> byte list" where
  "hmac_sha256 key msg =
     (let k = hmac_key key
      in sha256 (map (\<lambda>b. b XOR 0x5c) k @ sha256 (map (\<lambda>b. b XOR 0x36) k @ msg)))"

text \<open>\<open>.hexdigest()\<close>: two lower-case hexadecimal digits for each byte.\<close>

definition hex_digit :: "nat \<Rightarrow> char" where
  "hex_digit n = ''0123456789abcdef'' ! (n mod 16)"

definition hex_byte :: "byte \<Rightarrow> string" where
  "hex_byte b = [hex_digit (unat b div 16), hex_digit (unat b)]"

definition hexdigest :: "byte list \<Rightarrow> string" where
  "hexdigest bs = concat (map hex_byte bs)"

section \<open>src/app/auth/middleware.py\<close>

subsection \<open>Issuance\<close>

definition generate_api_key :: "string \<Rightarrow> string \<Rightarrow> string" where
  "generate_api_key user_id secret =
     (let message = user_id @ '':'' @ secret;
          signature = hexdigest (hmac_sha256 (encode secret) (encode message))
      in ''mcp_'' @ take 32 signature)"

subsection \<open>Verification\<close>

text \<open>
  \<open>APIKeyAuth.verify_api_key\<close> and \<open>AuthenticationMiddleware.verify_api_key\<close>. On a
  \<open>str\<close> neither \<open>startswith\<close> nor \<open>len\<close> raises, so the \<open>except\<close> branch of the two
  functions is never taken.
\<close>

definition APIKeyAuth_verify_api_key :: "string \<Rightarrow> bool" where
  "APIKeyAuth_verify_api_key api_key =
     (if \<not> startswith api_key ''mcp_'' then False else length api_key > 10)"

definition AuthenticationMiddleware_verify_api_key :: "string \<Rightarrow> bool" where
  "AuthenticationMiddleware_verify_api_key api_key =
     (if \<not> startswith api_key ''mcp_'' then False else length api_key > 10)"

text \<open>
  The user dictionary. Its keys are those \<open>get_user_from_api_key\<close> writes, each with the
  type of the value written there; \<open>None\<close> is an absent key.
\<close>

record user_dict =
  d_user_id :: "string option"
  d_permissions :: "string list option"
  d_tenant_id :: "string option"

definition dict_empty :: "user_dict \<Rightarrow> bool" where
  "dict_empty u = (d_user_id u = None \<and> d_permissions u = None \<and> d_tenant_id u = None)"

definition get_user_from_api_key :: "string \<Rightarrow> user_dict" where
  "get_user_from_api_key api_key =
     \<lparr>d_user_id = Some ''demo_user'',
      d_permissions = Some [''viewer'', ''moderator''],
      d_tenant_id = Some ''demo_tenant''\<rparr>"

subsection \<open>The request gate\<close>

text \<open>
  A request: its path, its headers as \<open>request.headers.get\<close> reads them (\<open>None\<close> for a
  header that is not sent), and the attributes set on \<open>request.state\<close> (\<open>None\<close> for an
  attribute that is not set).
\<close>

record request_state =
  state_user :: "user_dict option"
  state_api_key :: "string option"

record request =
  url_path :: string
  headers :: "string \<rightharpoonup> string"
  state :: request_state

datatype response = JSONResponse (status_code: nat) (content: "(string \<times> string) list")

record middleware =
  excluded_paths :: "string list"

text \<open>\<open>AuthenticationMiddleware.__init__\<close>: a missing or empty list gives the default one.\<close>

definition AuthenticationMiddleware_init :: "string list option \<Rightarrow> middleware" where
  "AuthenticationMiddleware_init excluded =
     \<lparr>excluded_paths =
        (case excluded of
           Some (p # ps) \<Rightarrow> p # ps
         | _ \<Rightarrow> [''/health'', ''/docs'', ''/openapi.json'', ''/redoc''])\<rparr>"

text \<open>\<open>a or b\<close> on optional strings: \<open>a\<close> when it is a non-empty string, else \<open>b\<close>.\<close>

definition py_or :: "string option \<Rightarrow> string option \<Rightarrow> string option" where
  "py_or a b = (case a of Some (c # cs) \<Rightarrow> a | _ \<Rightarrow> b)"

text \<open>
  \<open>AuthenticationMiddleware.dispatch\<close>. The result is the response together with the
  requests handed to \<open>call_next\<close>, in order: an empty list says that the downstream
  handler was not invoked.
\<close>

definition dispatch ::
  "middleware \<Rightarrow> (request \<Rightarrow> response) \<Rightarrow> request \<Rightarrow> response \<times> request list" where
  "dispatch self call_next request =
     (if url_path request \<in> set (excluded_paths self) then (call_next request, [request])
      else
        case py_or (headers request ''X-API-Key'') (headers request ''Authorization'') of
          None \<Rightarrow> (JSONResponse 401 [(''detail'', ''API key required'')], [])
        | Some [] \<Rightarrow> (JSONResponse 401 [(''detail'', ''API key required'')], [])
        | Some (c # cs) \<Rightarrow>
            let api_key =
                  (if startswith (c # cs) ''Bearer '' then replace (c # cs) ''Bearer '' []
                   else c # cs)
            in if \<not> AuthenticationMiddleware_verify_api_key api_key
               then (JSONResponse 401 [(''detail'', ''Invalid API key'')], [])
               else
                 let request' =
                       request\<lparr>state :=
                         \<lparr>state_user = Some (get_user_from_api_key api_key),
                          state_api_key = Some api_key\<rparr>\<rparr>
                 in (call_next request', [request']))"

subsection \<open>Permissions\<close>

text \<open>\<open>any(...)\<close> over the generated booleans.\<close>

fun py_any :: "bool list \<Rightarrow> bool" where
  "py_any [] = False"
| "py_any (b # bs) = (if b then True else py_any bs)"

definition validate_permissions :: "string list \<Rightarrow> string list \<Rightarrow> bool" where
  "validate_permissions required_permissions user_permissions =
     py_any (map (\<lambda>perm. perm \<in> set user_permissions) required_permissions)"

datatype http_exception = HTTPException (exc_status: nat) (exc_detail: string)

text \<open>
  \<open>PermissionChecker.__call__\<close>, with \<open>self.required_permissions\<close> as first argument.
  \<open>not user\<close> holds for \<open>None\<close> and for an empty dictionary.
\<close>

definition PermissionChecker_call :: "string list \<Rightarrow> request \<Rightarrow> http_exception + bool" where
  "PermissionChecker_call required_permissions request =
     (case state_user (state request) of
        None \<Rightarrow> Inl (HTTPException 401 ''Authentication required'')
      | Some user \<Rightarrow>
          if dict_empty user then Inl (HTTPException 401 ''Authentication required'')
          else
            let user_permissions = (case d_permissions user of None \<Rightarrow> [] | Some ps \<Rightarrow> ps)
            in if \<not> validate_permissions required_permissions user_permissions
               then Inl (HTTPException 403 ''Insufficient permissions'')
               else Inr True)"

section \<open>src/app/config.py and src/app/main.py\<close>



text \<open>The middleware as \<open>main.py\<close> installs it.\<close>

definition app_middleware :: middleware where
  "app_middleware =
     AuthenticationMiddleware_init
       (Some [''/health'', ''/docs'', ''/openapi.json'', ''/redoc'', ''/generate-api-key''])"


section \<open>The specification's wording\<close>





text \<open>A token is issued when \<open>generate_api_key\<close> returns it for some identifier and secret.\<close>

definition issued :: "string \<Rightarrow> bool" where
  "issued token = (\<exists>user_id secret. generate_api_key user_id secret = token)"

text \<open>The value \<open>dispatch\<close> hands to the verifier for a header value \<open>k\<close>.\<close>

definition normalized :: "string \<Rightarrow> string" where
  "normalized k = (if startswith k ''Bearer '' then replace k ''Bearer '' [] else k)"

text \<open>
  A scenario to run the gate on: a request to the protected route \<open>/mcp/tools\<close> of
  \<open>main.py\<close> with the given headers and nothing yet set on its state, and a downstream
  handler that answers 200.
\<close>

definition protected_request :: "(string \<rightharpoonup> string) \<Rightarrow> request" where
  "protected_request hs =
     \<lparr>url_path = ''/mcp/tools'', headers = hs,
      state = \<lparr>state_user = None, state_api_key = None\<rparr>\<rparr>"

definition ok_handler :: "request \<Rightarrow> response" where
  "ok_handler r = JSONResponse 200 []"

section \<open>Properties of the library functions and of issuance\<close>

lemma length_hash_bytes: "length (hash_bytes s) = 32"
  by (simp add: hash_bytes_def word_bytes_def split: prod.split)

lemma length_sha256: "length (sha256 m) = 32"
  by (simp add: sha256_def length_hash_bytes)

lemma length_hmac_sha256: "length (hmac_sha256 key msg) = 32"
  by (simp add: hmac_sha256_def Let_def length_sha256)

lemma length_hexdigest: "length (hexdigest bs) = 2 * length bs"
  by (induction bs) (simp_all add: hexdigest_def hex_byte_def)

lemma hex_digit_range: "hex_digit n \<in> set ''0123456789abcdef''"
  unfolding hex_digit_def by (rule nth_mem) simp

lemma hexdigest_range: "set (hexdigest bs) \<subseteq> set ''0123456789abcdef''"
proof (induction bs)
  case Nil
  show ?case by (simp add: hexdigest_def)
next
  case (Cons b bs)
  have "set (hex_byte b) \<subseteq> set ''0123456789abcdef''"
    using hex_digit_range [of "unat b div 16"] hex_digit_range [of "unat b"]
    by (simp add: hex_byte_def)
  with Cons show ?case by (simp add: hexdigest_def)
qed

lemma startswith_take: "startswith s p \<longleftrightarrow> take (length p) s = p"
  by (induction s p rule: startswith.induct) auto

lemma generate_api_key_shape:
  "\<exists>body. generate_api_key user_id secret = ''mcp_'' @ body \<and> length body = 32 \<and>
     set body \<subseteq> set ''0123456789abcdef'' \<and>
     body = take 32 (hexdigest (hmac_sha256 (encode secret) (encode (user_id @ '':'' @ secret))))"
proof -
  let ?sig = "hexdigest (hmac_sha256 (encode secret) (encode (user_id @ '':'' @ secret)))"
  have len: "length ?sig = 64"
    by (simp add: length_hexdigest length_hmac_sha256)
  have "set (take 32 ?sig) \<subseteq> set ?sig" by (rule set_take_subset)
  also have "\<dots> \<subseteq> set ''0123456789abcdef''" by (rule hexdigest_range)
  finally have "set (take 32 ?sig) \<subseteq> set ''0123456789abcdef''" .
  moreover have "length (take 32 ?sig) = 32" using len by simp
  moreover have "generate_api_key user_id secret = ''mcp_'' @ take 32 ?sig"
    by (simp add: generate_api_key_def Let_def)
  ultimately show ?thesis by blast
qed

lemma length_generate_api_key: "length (generate_api_key user_id secret) = 36"
  using generate_api_key_shape [of user_id secret] by auto


lemma generate_api_key_not_bearer: "\<not> startswith (generate_api_key user_id secret) ''Bearer ''"
  using generate_api_key_shape [of user_id secret] by auto



lemma normalized_generated: "normalized (generate_api_key user_id secret) = generate_api_key user_id secret"
  by (simp add: normalized_def generate_api_key_not_bearer)

text \<open>dispatch in terms of the extracted header value.\<close>

lemma dispatch_excluded:
  "url_path request \<in> set (excluded_paths self) \<Longrightarrow>
   dispatch self call_next request = (call_next request, [request])"
  by (simp add: dispatch_def)

lemma dispatch_missing:
  assumes "url_path request \<notin> set (excluded_paths self)"
    and "py_or (headers request ''X-API-Key'') (headers request ''Authorization'') = None \<or>
         py_or (headers request ''X-API-Key'') (headers request ''Authorization'') = Some []"
  shows "dispatch self call_next request =
           (JSONResponse 401 [(''detail'', ''API key required'')], [])"
  using assms by (auto simp add: dispatch_def)

lemma dispatch_rejected:
  assumes "url_path request \<notin> set (excluded_paths self)"
    and "py_or (headers request ''X-API-Key'') (headers request ''Authorization'') = Some k"
    and "k \<noteq> []"
    and "\<not> AuthenticationMiddleware_verify_api_key (normalized k)"
  shows "dispatch self call_next request =
           (JSONResponse 401 [(''detail'', ''Invalid API key'')], [])"
  using assms by (cases k) (simp_all add: dispatch_def normalized_def Let_def)

lemma dispatch_accepted:
  assumes "url_path request \<notin> set (excluded_paths self)"
    and "py_or (headers request ''X-API-Key'') (headers request ''Authorization'') = Some k"
    and "k \<noteq> []"
    and "AuthenticationMiddleware_verify_api_key (normalized k)"
  shows "dispatch self call_next request =
           (call_next (request\<lparr>state :=
                \<lparr>state_user = Some (get_user_from_api_key (normalized k)),
                 state_api_key = Some (normalized k)\<rparr>\<rparr>),
            [request\<lparr>state :=
                \<lparr>state_user = Some (get_user_from_api_key (normalized k)),
                 state_api_key = Some (normalized k)\<rparr>\<rparr>])"
  using assms by (cases k) (simp_all add: dispatch_def normalized_def Let_def)

lemma py_or_first: "a = Some k \<Longrightarrow> k \<noteq> [] \<Longrightarrow> py_or a b = Some k"
  by (cases k) (simp_all add: py_or_def)

lemma generate_api_key_nonempty: "generate_api_key user_id secret \<noteq> []"
  using length_generate_api_key [of user_id secret] by auto

lemma validate_permissions_iff:
  "validate_permissions required_permissions user_permissions \<longleftrightarrow>
     set required_permissions \<inter> set user_permissions \<noteq> {}"
  by (induction required_permissions) (auto simp add: validate_permissions_def)

lemma issued_length: "issued token \<Longrightarrow> length token = 36"
  by (auto simp add: issued_def length_generate_api_key)

section \<open>The claims\<close>

text \<open>
  Claim C4. \<open>validate_permissions\<close> returns \<open>True\<close> exactly when the required list and the
  user's list share a permission. A user holding only \<open>viewer\<close> passes a route that requires
  \<open>viewer\<close> or \<open>moderator\<close>, and fails one that requires \<open>moderator\<close> alone.
\<close>

theorem C4_validate_permissions_or_semantics:
  "(validate_permissions required_permissions user_permissions \<longleftrightarrow>
      set required_permissions \<inter> set user_permissions \<noteq> {}) \<and>
   validate_permissions [''viewer'', ''moderator''] [''viewer''] \<and>
   \<not> validate_permissions [''moderator''] [''viewer'']"
  by (simp add: validate_permissions_iff)

text \<open>
  Claim C9. The two \<open>verify_api_key\<close> methods, of \<open>APIKeyAuth\<close> and of
  \<open>AuthenticationMiddleware\<close>, return the same boolean on every string.
\<close>

theorem C9_verifiers_agree:
  "APIKeyAuth_verify_api_key api_key = AuthenticationMiddleware_verify_api_key api_key"
  by (simp add: APIKeyAuth_verify_api_key_def AuthenticationMiddleware_verify_api_key_def)





end
